theory Spec2Isabelle
  imports Complex_Main "HOL-Library.AList"
begin

section \<open>Conventions of the embedding\<close>

text \<open>
  The two programs embedded here are \<^verbatim>\<open>hft-simulator/distributed_hft_engine.py\<close>
  and \<^verbatim>\<open>kafka-streams/real_time_fractal_consumer.py\<close>.

  \<^item> A Python \<^verbatim>\<open>float\<close> is modelled as a \<^typ>\<open>real\<close>: arithmetic is exact, there is
    no rounding, no infinity and no NaN. Every statement below is a statement about the
    program's arithmetic read over the reals.
  \<^item> A Python \<^verbatim>\<open>int\<close> is an \<^typ>\<open>int\<close>; counters and lengths that only grow
    from zero are \<^typ>\<open>nat\<close>.
  \<^item> A Python \<^verbatim>\<open>dict\<close> that is iterated (the positions of the portfolio) is an
    association list in insertion order, updated with \<^const>\<open>AList.update\<close>: a stored
    key keeps its place, a new key goes to the end.
  \<^item> An exception is a value of \<open>py_error\<close>; a function that can raise returns
    \<open>py_error + 'a\<close>. A method that has written to its object before it raises returns
    the object as written, paired with the exception.
  \<^item> Clock reads (\<^verbatim>\<open>time.time()\<close>) are parameters of the functions that make them.
  \<^item> Logging and the Prometheus counters are left out, except where a claim reads them.
\<close>

datatype py_error =
  ZeroDivisionError | StatisticsError | TypeError | KeyError | IndexError | ValueError

section \<open>Data model of the trading engine\<close>

datatype OrderType = MARKET | LIMIT | STOP_LOSS | TAKE_PROFIT

datatype OrderSide = BUY | SELL

datatype ExecutionStatus = PENDING | FILLED | PARTIAL | CANCELLED | REJECTED

record Order =
  order_id :: string
  o_symbol :: string
  o_side :: OrderSide
  order_type :: OrderType
  o_quantity :: real
  o_price :: "real option"
  o_timestamp_us :: int
  client_id :: string
  execution_status :: ExecutionStatus
  filled_quantity :: real
  average_fill_price :: real
  o_commission :: real
  fractal_signal :: "string option"
  o_risk_score :: real

record Position =
  p_symbol :: string
  p_quantity :: real
  average_price :: real
  market_value :: real
  unrealized_pnl :: real
  realized_pnl :: real
  last_update_us :: int

record TradeExecution =
  trade_id :: string
  t_order_id :: string
  t_symbol :: string
  t_side :: OrderSide
  t_quantity :: real
  t_price :: real
  t_timestamp_us :: int
  execution_latency_us :: int
  t_commission :: real
  fractal_pattern :: "string option"

section \<open>FractalSignalProcessor\<close>

text \<open>\<^verbatim>\<open>_calculate_signal_strength\<close>: the two multiplier tables are dictionaries read with
  \<^verbatim>\<open>.get(key, 1.0)\<close>.\<close>

definition pattern_multipliers :: "string \<Rightarrow> real" where
  "pattern_multipliers pattern_type =
     (if pattern_type = ''VOLATILE_BREAKOUT'' then 1.2
      else if pattern_type = ''VOLATILE_UPTREND'' then 1.1
      else if pattern_type = ''VOLATILE_DOWNTREND'' then 1.1
      else if pattern_type = ''TRENDING_FRACTAL'' then 1.05
      else if pattern_type = ''SMOOTH_TREND'' then 0.9
      else if pattern_type = ''VOLATILE_RANGE'' then 0.8
      else if pattern_type = ''CHOPPY'' then 0.6
      else 1.0)"

definition signal_multipliers :: "string \<Rightarrow> real" where
  "signal_multipliers prediction_signal =
     (if prediction_signal = ''STRONG_BUY'' then 1.3
      else if prediction_signal = ''STRONG_SELL'' then 1.3
      else if prediction_signal = ''BUY'' then 1.1
      else if prediction_signal = ''SELL'' then 1.1
      else if prediction_signal = ''HOLD'' then 0.7
      else if prediction_signal = ''NEUTRAL'' then 0.5
      else if prediction_signal = ''AVOID'' then 0.2
      else 1.0)"

definition calculate_signal_strength :: "string \<Rightarrow> real \<Rightarrow> real \<Rightarrow> string \<Rightarrow> real" where
  "calculate_signal_strength pattern_type confidence risk_score prediction_signal =
     (let strength = confidence;
          strength = strength * pattern_multipliers pattern_type;
          strength = strength * signal_multipliers prediction_signal;
          risk_penalty = min 0.3 (risk_score * 0.15);
          strength = strength - risk_penalty
      in max 0.0 (min 1.0 strength))"

definition calculate_position_size :: "real \<Rightarrow> real \<Rightarrow> real" where
  "calculate_position_size signal_strength risk_score =
     (let base_size = 1000.0;
          strength_multiplier = 0.5 + (signal_strength * 1.5);
          risk_multiplier = max 0.2 (1.0 - (risk_score * 0.3));
          position_size = base_size * strength_multiplier * risk_multiplier
      in max 100.0 (min 10000.0 position_size))"

section \<open>PortfolioManager\<close>

text \<open>The fields \<^verbatim>\<open>orders\<close>, \<^verbatim>\<open>trades\<close> and \<^verbatim>\<open>lock\<close> of the class are never read or
  written by the methods embedded here and are left out. \<^verbatim>\<open>positions\<close> is the dictionary
  from symbol to position, in insertion order.\<close>

record PortfolioManager =
  initial_capital :: real
  current_capital :: real
  positions :: "(string \<times> Position) list"
  max_position_size :: real
  max_total_exposure :: real
  stop_loss_percentage :: real
  take_profit_percentage :: real
  total_trades :: nat
  winning_trades :: nat
  total_pnl :: real
  max_drawdown :: real
  peak_portfolio_value :: real

definition PortfolioManager_init :: "real \<Rightarrow> PortfolioManager" where
  "PortfolioManager_init capital =
     \<lparr>initial_capital = capital, current_capital = capital, positions = [],
      max_position_size = 0.05, max_total_exposure = 0.8,
      stop_loss_percentage = 0.02, take_profit_percentage = 0.04,
      total_trades = 0, winning_trades = 0, total_pnl = 0.0, max_drawdown = 0.0,
      peak_portfolio_value = capital\<rparr>"

text \<open>\<^verbatim>\<open>calculate_portfolio_value\<close>: the loop over \<^verbatim>\<open>self.positions.items()\<close>. A position
  whose symbol is a key of \<^verbatim>\<open>current_prices\<close> is added to the total and re-marked; any
  other position is skipped.\<close>

fun mark_positions ::
  "(string \<rightharpoonup> real) \<Rightarrow> (string \<times> Position) list \<Rightarrow> real \<Rightarrow> real \<times> (string \<times> Position) list" where
  "mark_positions current_prices [] total_value = (total_value, [])"
| "mark_positions current_prices ((symbol, position) # rest) total_value =
     (case current_prices symbol of
        Some price \<Rightarrow>
          (let mv = p_quantity position * price;
               position' = position\<lparr>market_value := mv,
                 unrealized_pnl := mv - (p_quantity position * average_price position)\<rparr>;
               (total, rest') = mark_positions current_prices rest (total_value + mv)
           in (total, (symbol, position') # rest'))
      | None \<Rightarrow>
          (let (total, rest') = mark_positions current_prices rest total_value
           in (total, (symbol, position) # rest')))"

definition calculate_portfolio_value ::
  "PortfolioManager \<Rightarrow> (string \<rightharpoonup> real) \<Rightarrow> real \<times> PortfolioManager" where
  "calculate_portfolio_value pm current_prices =
     (let (total_value, ps) = mark_positions current_prices (positions pm) (current_capital pm)
      in (total_value, pm\<lparr>positions := ps\<rparr>))"

text \<open>\<^verbatim>\<open>check_risk_limits\<close> returns a verdict and a message. The three messages are
  constructors; the two formatted ones carry the numbers the f-string prints.\<close>

datatype risk_message =
    Position_size_exceeds_limit real real
  | Total_exposure_exceeds_limit real real
  | Insufficient_capital_for_purchase
  | Risk_checks_passed

definition check_risk_limits :: "PortfolioManager \<Rightarrow> Order \<Rightarrow> real \<Rightarrow> bool \<times> risk_message" where
  "check_risk_limits pm order current_price =
     (let order_value = o_quantity order * current_price;
          portfolio_value = current_capital pm + sum_list (map (\<lambda>(s, pos). market_value pos) (positions pm));
          position_percentage = order_value / max portfolio_value 1.0
      in if position_percentage > max_position_size pm
         then (False, Position_size_exceeds_limit position_percentage (max_position_size pm))
         else
           (let current_exposure = sum_list (map (\<lambda>(s, pos). \<bar>market_value pos\<bar>) (positions pm));
                total_exposure = (current_exposure + order_value) / max portfolio_value 1.0
            in if total_exposure > max_total_exposure pm
               then (False, Total_exposure_exceeds_limit total_exposure (max_total_exposure pm))
               else if o_side order = BUY \<and> order_value > current_capital pm * 0.95
               then (False, Insufficient_capital_for_purchase)
               else (True, Risk_checks_passed)))"

text \<open>\<^verbatim>\<open>update_position\<close>, in the three stages of its body: the ledger update of the
  traded symbol (source lines 289 to 329), the recomputation of the portfolio value with
  the price dictionary \<^verbatim>\<open>{symbol: trade.price}\<close> (line 332), and the peak and drawdown
  tracking (lines 336 to 340), whose division raises when the peak is zero.\<close>

definition new_position :: "string \<Rightarrow> int \<Rightarrow> Position" where
  "new_position symbol timestamp_us =
     \<lparr>p_symbol = symbol, p_quantity = 0.0, average_price = 0.0, market_value = 0.0,
      unrealized_pnl = 0.0, realized_pnl = 0.0, last_update_us = timestamp_us\<rparr>"

definition apply_trade :: "PortfolioManager \<Rightarrow> TradeExecution \<Rightarrow> PortfolioManager" where
  "apply_trade pm trade =
     (let symbol = t_symbol trade;
          position = (case map_of (positions pm) symbol of
                        None \<Rightarrow> new_position symbol (t_timestamp_us trade)
                      | Some p \<Rightarrow> p)
      in if t_side trade = BUY then
           (let new_quantity = p_quantity position + t_quantity trade;
                position = (if new_quantity \<noteq> 0
                            then position\<lparr>average_price :=
                                   (p_quantity position * average_price position
                                    + t_quantity trade * t_price trade) / new_quantity\<rparr>
                            else position);
                position = position\<lparr>p_quantity := new_quantity\<rparr>;
                position = position\<lparr>last_update_us := t_timestamp_us trade\<rparr>
            in pm\<lparr>positions := AList.update symbol position (positions pm),
                  current_capital := current_capital pm
                                     - (t_quantity trade * t_price trade + t_commission trade),
                  total_trades := total_trades pm + 1\<rparr>)
         else
           (let pnl = (t_price trade - average_price position) * t_quantity trade;
                position = position\<lparr>realized_pnl := realized_pnl position + pnl\<rparr>;
                position = position\<lparr>p_quantity := p_quantity position - t_quantity trade\<rparr>;
                position = position\<lparr>last_update_us := t_timestamp_us trade\<rparr>
            in pm\<lparr>positions := AList.update symbol position (positions pm),
                  total_pnl := total_pnl pm + pnl,
                  current_capital := current_capital pm
                                     + (t_quantity trade * t_price trade - t_commission trade),
                  winning_trades := (if pnl > 0 then winning_trades pm + 1 else winning_trades pm),
                  total_trades := total_trades pm + 1\<rparr>))"

definition recomputed_value :: "PortfolioManager \<Rightarrow> TradeExecution \<Rightarrow> real \<times> PortfolioManager" where
  "recomputed_value pm trade =
     calculate_portfolio_value (apply_trade pm trade) [t_symbol trade \<mapsto> t_price trade]"

definition track_drawdown :: "PortfolioManager \<Rightarrow> real \<Rightarrow> PortfolioManager \<times> py_error option" where
  "track_drawdown pm current_portfolio_value =
     (if current_portfolio_value > peak_portfolio_value pm
      then (pm\<lparr>peak_portfolio_value := current_portfolio_value\<rparr>, None)
      else if peak_portfolio_value pm = 0 then (pm, Some ZeroDivisionError)
      else
        (let drawdown = (peak_portfolio_value pm - current_portfolio_value) / peak_portfolio_value pm
         in (pm\<lparr>max_drawdown := max (max_drawdown pm) drawdown\<rparr>, None)))"

text \<open>The method mutates the portfolio in place, so what it has written stays written
  when the last division raises: the result is the portfolio as the call leaves it,
  with the exception raised, if any.\<close>

definition update_position :: "PortfolioManager \<Rightarrow> TradeExecution \<Rightarrow> PortfolioManager \<times> py_error option" where
  "update_position pm trade =
     (let (current_portfolio_value, pm') = recomputed_value pm trade
      in track_drawdown pm' current_portfolio_value)"


text \<open>The value of the portfolio as \<^verbatim>\<open>check_risk_limits\<close> computes it: the cash and the
  stored market value of every position, which is its quantity at the price of the last
  update that marked it.\<close>

definition portfolio_value :: "PortfolioManager \<Rightarrow> real" where
  "portfolio_value pm =
     current_capital pm + sum_list (map (\<lambda>(s, pos). market_value pos) (positions pm))"

section \<open>Signals and orders\<close>

text \<open>The pattern message is the JSON object read from the \<^verbatim>\<open>fractal-patterns\<close> topic.
  \<^verbatim>\<open>process_fractal_pattern\<close> reads five of its keys; a key that is absent is \<open>None\<close>
  here, and reading it raises \<^verbatim>\<open>KeyError\<close>, which the method catches.\<close>

record pattern_data =
  pd_symbol :: "string option"
  pd_pattern_type :: "string option"
  pd_confidence :: "real option"
  pd_risk_score :: "real option"
  pd_prediction_signal :: "string option"


record trading_signal =
  s_symbol :: string
  action :: string
  signal_strength :: real
  position_size :: real
  s_confidence :: real
  s_risk_score :: real
  s_pattern_type :: string
  s_timestamp_us :: int
  priority :: string

record FractalSignalProcessor =
  signal_history :: "string \<Rightarrow> trading_signal list"
  confidence_threshold :: real
  risk_threshold :: real


text \<open>\<^verbatim>\<open>process_fractal_pattern\<close>: the result is the signal (or \<^verbatim>\<open>None\<close>) and the processor
  with its history updated. \<open>now_us\<close> is the clock read of the signal's timestamp.\<close>

definition process_fractal_pattern ::
  "FractalSignalProcessor \<Rightarrow> int \<Rightarrow> pattern_data \<Rightarrow> trading_signal option \<times> FractalSignalProcessor" where
  "process_fractal_pattern fsp now_us pd =
     (case (pd_symbol pd, pd_pattern_type pd, pd_confidence pd, pd_risk_score pd,
            pd_prediction_signal pd) of
        (Some symbol, Some pattern_type, Some confidence, Some risk_score, Some prediction_signal) \<Rightarrow>
          if confidence < confidence_threshold fsp then (None, fsp)
          else if risk_score > risk_threshold fsp then (None, fsp)
          else
            (let strength = calculate_signal_strength pattern_type confidence risk_score
                              prediction_signal;
                 size = calculate_position_size strength risk_score;
                 signal = \<lparr>s_symbol = symbol, action = prediction_signal,
                            signal_strength = strength, position_size = size,
                            s_confidence = confidence, s_risk_score = risk_score,
                            s_pattern_type = pattern_type, s_timestamp_us = now_us,
                            priority = (if strength > 0.8 then ''HIGH'' else ''MEDIUM'')\<rparr>;
                 history = signal_history fsp symbol @ [signal];
                 history = (if length history > 100 then tl history else history)
             in (Some signal, fsp\<lparr>signal_history := (signal_history fsp)(symbol := history)\<rparr>))
      | _ \<Rightarrow> (None, fsp))"





section \<open>The execution queue\<close>

text \<open>
  \<^verbatim>\<open>self.execution_queue\<close> is a \<^verbatim>\<open>queue.PriorityQueue\<close> of the Python standard library:
  a list kept as a binary heap, \<^verbatim>\<open>put\<close> being \<^verbatim>\<open>heapq.heappush\<close> and \<^verbatim>\<open>get\<close> being
  \<^verbatim>\<open>heapq.heappop\<close>. The functions below follow CPython's \<^verbatim>\<open>_heapq\<close>: an entry is sifted
  by swaps, each decided by one \<^verbatim>\<open><\<close> between two entries, and an exception raised by a
  comparison leaves the list as the swaps made so far have it.

  The entries are the tuples \<^verbatim>\<open>(priority, order)\<close> that \<^verbatim>\<open>submit_order\<close> puts. Python
  compares tuples item by item: the priorities decide when they differ; when they are
  equal the orders are compared, and \<^verbatim>\<open>Order\<close> is a dataclass declared without
  \<^verbatim>\<open>order=True\<close>: it has \<^verbatim>\<open>==\<close> (all fields equal) but no \<^verbatim>\<open><\<close>, so the comparison of
  two different orders raises \<^verbatim>\<open>TypeError\<close>.
\<close>

type_synonym entry = "int \<times> Order"

definition entry_lt :: "entry \<Rightarrow> entry \<Rightarrow> py_error + bool" where
  "entry_lt a b =
     (if fst a \<noteq> fst b then Inr (fst a < fst b)
      else if snd a = snd b then Inr False
      else Inl TypeError)"

function siftdown :: "entry list \<Rightarrow> nat \<Rightarrow> nat \<Rightarrow> entry list \<times> py_error option" where
  "siftdown heap startpos pos =
     (if pos \<ge> length heap then (heap, Some IndexError)
      else if pos > startpos then
        (let parentpos = (pos - 1) div 2
         in case entry_lt (heap ! pos) (heap ! parentpos) of
              Inl e \<Rightarrow> (heap, Some e)
            | Inr False \<Rightarrow> (heap, None)
            | Inr True \<Rightarrow>
                siftdown (heap[parentpos := heap ! pos, pos := heap ! parentpos]) startpos parentpos)
      else (heap, None))"
  by pat_completeness auto
termination
  by (relation "measure (\<lambda>(heap, startpos, pos). pos)") auto

function siftup_loop :: "entry list \<Rightarrow> nat \<Rightarrow> nat \<Rightarrow> entry list \<times> py_error option" where
  "siftup_loop heap startpos pos =
     (let endpos = length heap; limit = endpos div 2
      in if pos < limit then
           (let childpos = 2 * pos + 1
            in if childpos + 1 < endpos then
                 (case entry_lt (heap ! childpos) (heap ! (childpos + 1)) of
                    Inl e \<Rightarrow> (heap, Some e)
                  | Inr c \<Rightarrow>
                      (let childpos = (if c then childpos else childpos + 1)
                       in siftup_loop (heap[childpos := heap ! pos, pos := heap ! childpos])
                            startpos childpos))
               else siftup_loop (heap[childpos := heap ! pos, pos := heap ! childpos])
                      startpos childpos)
         else siftdown heap startpos pos)"
  by pat_completeness auto
termination
  by (relation "measure (\<lambda>(heap, startpos, pos). length heap - pos)") auto

definition siftup :: "entry list \<Rightarrow> nat \<Rightarrow> entry list \<times> py_error option" where
  "siftup heap pos =
     (if pos \<ge> length heap then (heap, Some IndexError) else siftup_loop heap pos pos)"

definition heappush :: "entry list \<Rightarrow> entry \<Rightarrow> entry list \<times> py_error option" where
  "heappush heap item = siftdown (heap @ [item]) 0 (length heap)"

text \<open>\<^verbatim>\<open>heappop\<close> returns the item, or raises; when the sift raises, the item taken from
  the root is dropped with the exception.\<close>

definition heappop :: "entry list \<Rightarrow> entry list \<times> (py_error + entry)" where
  "heappop heap =
     (if heap = [] then (heap, Inl IndexError)
      else
        (let lastelt = last heap; heap = butlast heap
         in if heap = [] then (heap, Inr lastelt)
            else
              (let returnitem = heap ! 0;
                   (heap, e) = siftup (heap[0 := lastelt]) 0
               in case e of Some err \<Rightarrow> (heap, Inl err) | None \<Rightarrow> (heap, Inr returnitem))))"

text \<open>The execution engine, as far as order intake goes: the queue, the last-price table
  and the \<^verbatim>\<open>EXECUTION_ERRORS\<close> counter. \<^verbatim>\<open>submit_order\<close> stamps the order and puts it;
  an exception of \<^verbatim>\<open>put\<close> is caught and counted.\<close>

record OrderExecutionEngine =
  execution_queue :: "entry list"
  market_data :: "string \<rightharpoonup> real"
  EXECUTION_ERRORS :: nat

definition OrderExecutionEngine_init :: OrderExecutionEngine where
  "OrderExecutionEngine_init =
     \<lparr>execution_queue = [], market_data = Map.empty, EXECUTION_ERRORS = 0\<rparr>"

definition submit_order :: "OrderExecutionEngine \<Rightarrow> int \<Rightarrow> Order \<Rightarrow> int \<Rightarrow> OrderExecutionEngine" where
  "submit_order eng now_us order prio =
     (let order = order\<lparr>o_timestamp_us := now_us\<rparr>;
          (heap, e) = heappush (execution_queue eng) (prio, order)
      in case e of
           None \<Rightarrow> eng\<lparr>execution_queue := heap\<rparr>
         | Some err \<Rightarrow> eng\<lparr>execution_queue := heap, EXECUTION_ERRORS := EXECUTION_ERRORS eng + 1\<rparr>)"

text \<open>One iteration of \<^verbatim>\<open>_process_execution_queue\<close>: the order handed to the executor,
  if any. An empty queue times out (\<^verbatim>\<open>queue.Empty\<close>, the loop continues); any other
  exception of \<^verbatim>\<open>get\<close> is caught and counted.\<close>

definition process_execution_queue_step :: "OrderExecutionEngine \<Rightarrow> Order option \<times> OrderExecutionEngine" where
  "process_execution_queue_step eng =
     (if execution_queue eng = [] then (None, eng)
      else
        (case heappop (execution_queue eng) of
           (heap, Inr (prio, order)) \<Rightarrow> (Some order, eng\<lparr>execution_queue := heap\<rparr>)
         | (heap, Inl err) \<Rightarrow>
             (None, eng\<lparr>execution_queue := heap, EXECUTION_ERRORS := EXECUTION_ERRORS eng + 1\<rparr>)))"

text \<open>\<open>dequeue_all n\<close> runs \<open>n\<close> iterations and lists what each hands to the executor.\<close>

fun dequeue_all :: "nat \<Rightarrow> OrderExecutionEngine \<Rightarrow> Order option list \<times> OrderExecutionEngine" where
  "dequeue_all 0 eng = ([], eng)"
| "dequeue_all (Suc n) eng =
     (let (o1, eng1) = process_execution_queue_step eng;
          (os, eng2) = dequeue_all n eng1
      in (o1 # os, eng2))"

section \<open>The pattern consumer of the engine\<close>








section \<open>The real-time fractal detector\<close>

record MarketTick =
  tick_timestamp_us :: int
  tick_symbol :: string
  tick_price :: real
  tick_volume :: int
  tick_bid :: real
  tick_ask :: real
  tick_spread :: real
  tick_volatility :: real
  tick_fractal_dimension :: real
  tick_sequence_id :: int
  tick_exchange :: string

record FractalPattern =
  fp_symbol :: string
  fp_pattern_type :: string
  fp_start_time_us :: int
  fp_end_time_us :: int
  fp_duration_ms :: int
  fp_fractal_dimension :: real
  fp_confidence :: real
  fp_price_range :: "real \<times> real"
  fp_volatility_avg :: real
  fp_pattern_strength :: real
  fp_prediction_signal :: string
  fp_risk_score :: real

text \<open>The detector's state: the window sizes, one buffer of \<open>(timestamp_us, price,
  volatility)\<close> per symbol and window size, the three thresholds and the count of patterns.
  \<^verbatim>\<open>window_sizes or [20, 50, 100]\<close> takes the default for \<^verbatim>\<open>None\<close> and for an empty list.\<close>

record RealTimeFractalDetector =
  window_sizes :: "nat list"
  price_buffers :: "string \<Rightarrow> nat \<Rightarrow> (int \<times> real \<times> real) list"
  min_pattern_strength :: real
  anomaly_threshold :: real
  volatility_threshold :: real
  patterns_detected :: nat

definition RealTimeFractalDetector_init :: "nat list option \<Rightarrow> RealTimeFractalDetector" where
  "RealTimeFractalDetector_init sizes =
     \<lparr>window_sizes = (case sizes of None \<Rightarrow> [20, 50, 100]
                        | Some ws \<Rightarrow> if ws = [] then [20, 50, 100] else ws),
      price_buffers = (\<lambda>symbol window_size. []),
      min_pattern_strength = 0.6, anomaly_threshold = 2.0, volatility_threshold = 0.05,
      patterns_detected = 0\<rparr>"

subsection \<open>Box counting\<close>

text \<open>\<^verbatim>\<open>int(x)\<close> truncates towards zero.\<close>

definition py_int :: "real \<Rightarrow> int" where
  "py_int x = (if x \<ge> 0 then \<lfloor>x\<rfloor> else \<lceil>x\<rceil>)"

text \<open>The set of boxes of one box size: \<^verbatim>\<open>(i // box_size, int(price * box_size))\<close> over
  \<^verbatim>\<open>enumerate(normalized[:-1])\<close>.\<close>

definition boxes :: "nat \<Rightarrow> real list \<Rightarrow> (nat \<times> int) set" where
  "boxes box_size normalized =
     set (map (\<lambda>(i, price). (i div box_size, py_int (price * real box_size)))
            (enumerate 0 (butlast normalized)))"

text \<open>The loop over the box sizes, with its \<^verbatim>\<open>break\<close> at the first size that reaches a
  third of the length; it returns \<^verbatim>\<open>log_sizes\<close> and \<^verbatim>\<open>log_counts\<close>.\<close>

fun box_loop :: "nat \<Rightarrow> real list \<Rightarrow> nat list \<Rightarrow> real list \<times> real list" where
  "box_loop n normalized [] = ([], [])"
| "box_loop n normalized (box_size # rest) =
     (if box_size \<ge> n div 3 then ([], [])
      else
        (let (log_sizes, log_counts) = box_loop n normalized rest
         in if card (boxes box_size normalized) > 1
            then (ln (1.0 / real box_size) # log_sizes,
                  ln (real (card (boxes box_size normalized))) # log_counts)
            else (log_sizes, log_counts)))"

definition regression_denom :: "real list \<Rightarrow> real" where
  "regression_denom log_sizes =
     real (length log_sizes) * sum_list (map (\<lambda>x. x * x) log_sizes)
       - sum_list log_sizes * sum_list log_sizes"

text \<open>The tail of \<^verbatim>\<open>_fast_box_counting\<close>: the least-squares slope of \<^verbatim>\<open>log_counts\<close>
  against \<^verbatim>\<open>log_sizes\<close>, clamped.\<close>

definition clamped_slope :: "real list \<Rightarrow> real list \<Rightarrow> real" where
  "clamped_slope log_sizes log_counts =
     (if length log_sizes < 2 then 1.0
      else
        (let n = real (length log_sizes);
             sum_x = sum_list log_sizes;
             sum_y = sum_list log_counts;
             sum_xy = sum_list (map (\<lambda>(x, y). x * y) (zip log_sizes log_counts));
             denom = regression_denom log_sizes
         in if \<bar>denom\<bar> < 1 / 10 ^ 10 then 1.0
            else (let slope = (n * sum_xy - sum_x * sum_y) / denom
                  in max 1.0 (min 2.0 slope))))"

definition box_counts :: "real list \<Rightarrow> real list \<times> real list" where
  "box_counts prices =
     (let min_price = Min (set prices);
          max_price = Max (set prices);
          price_range = max_price - min_price;
          normalized = map (\<lambda>p. (p - min_price) / price_range) prices
      in box_loop (length prices) normalized [1, 2, 4, 8, 16])"

definition fast_box_counting :: "real list \<Rightarrow> real" where
  "fast_box_counting prices =
     (if length prices < 10 then 1.0
      else if Max (set prices) - Min (set prices) = 0 then 1.0
      else (let (log_sizes, log_counts) = box_counts prices
            in clamped_slope log_sizes log_counts))"

subsection \<open>Statistics\<close>

text \<open>\<^verbatim>\<open>statistics.mean\<close> raises on no data, \<^verbatim>\<open>statistics.stdev\<close> (the sample standard
  deviation) on fewer than two points.\<close>

definition statistics_mean :: "real list \<Rightarrow> py_error + real" where
  "statistics_mean xs =
     (if xs = [] then Inl StatisticsError else Inr (sum_list xs / real (length xs)))"

definition statistics_stdev :: "real list \<Rightarrow> py_error + real" where
  "statistics_stdev xs =
     (if length xs < 2 then Inl StatisticsError
      else (let m = sum_list xs / real (length xs)
            in Inr (sqrt (sum_list (map (\<lambda>x. (x - m) * (x - m)) xs) / real (length xs - 1)))))"

text \<open>\<^verbatim>\<open>[(prices[i] - prices[i-1]) / prices[i-1] for i in range(1, len(prices))]\<close>: the
  division raises at the first price that is zero.\<close>

fun simple_returns :: "real list \<Rightarrow> py_error + real list" where
  "simple_returns (p0 # p1 # rest) =
     (if p0 = 0 then Inl ZeroDivisionError
      else (case simple_returns (p1 # rest) of
              Inl e \<Rightarrow> Inl e
            | Inr rs \<Rightarrow> Inr ((p1 - p0) / p0 # rs)))"
| "simple_returns ps = Inr []"

definition last_n :: "nat \<Rightarrow> 'a list \<Rightarrow> 'a list" where
  "last_n k xs = drop (length xs - k) xs"

subsection \<open>Classification and scores\<close>

definition classify_pattern ::
  "RealTimeFractalDetector \<Rightarrow> real list \<Rightarrow> real list \<Rightarrow> real \<Rightarrow> py_error + string" where
  "classify_pattern det prices volatilities fractal_dim =
     (case statistics_mean volatilities of
        Inl e \<Rightarrow> Inl e
      | Inr avg_vol \<Rightarrow>
          (case simple_returns prices of
             Inl e \<Rightarrow> Inl e
           | Inr rets \<Rightarrow>
               (let trend = (if length rets \<ge> 10 then sum_list (last_n 10 rets) else 0)
                in Inr
                  (if fractal_dim < 1.2 then
                     (if \<bar>trend\<bar> > 0.01 then ''SMOOTH_TREND'' else ''SIDEWAYS'')
                   else if fractal_dim > 1.8 then
                     (if avg_vol > volatility_threshold det then ''VOLATILE_BREAKOUT''
                      else ''CHOPPY'')
                   else if fractal_dim > 1.6 then
                     (if trend > 0.02 then ''VOLATILE_UPTREND''
                      else if trend < - 0.02 then ''VOLATILE_DOWNTREND''
                      else ''VOLATILE_RANGE'')
                   else if fractal_dim > 1.4 then
                     (if \<bar>trend\<bar> > 0.015 then ''TRENDING_FRACTAL'' else ''RANGE_FRACTAL'')
                   else ''NORMAL_MOVEMENT''))))"

definition calculate_confidence :: "real list \<Rightarrow> real \<Rightarrow> real list \<Rightarrow> py_error + real" where
  "calculate_confidence prices fractal_dim volatilities =
     (let dim_score = 1.0 - \<bar>fractal_dim - 1.5\<bar> / 0.5;
          dim_score = max 0 (min 1 dim_score)
      in if prices = [] then Inl ValueError
         else if sum_list prices / real (length prices) = 0 then Inl ZeroDivisionError
         else
           (let price_range = (Max (set prices) - Min (set prices))
                                / (sum_list prices / real (length prices));
                range_score = min 1.0 (price_range * 20)
            in case statistics_stdev volatilities of
                 Inl e \<Rightarrow> Inl e
               | Inr sd \<Rightarrow>
                   (case statistics_mean volatilities of
                      Inl e \<Rightarrow> Inl e
                    | Inr mean_vol \<Rightarrow>
                        (let vol_consistency = 1.0 - (sd / max mean_vol 0.001);
                             vol_consistency = max 0 (min 1 vol_consistency);
                             length_score = min 1.0 (real (length prices) / 50.0);
                             conf = dim_score * 0.3 + range_score * 0.3
                                      + vol_consistency * 0.2 + length_score * 0.2
                         in Inr (max 0 (min 1 conf))))))"

definition calculate_pattern_strength :: "real list \<Rightarrow> real list \<Rightarrow> py_error + real" where
  "calculate_pattern_strength prices volatilities =
     (case simple_returns prices of
        Inl e \<Rightarrow> Inl e
      | Inr rets \<Rightarrow>
          (let momentum = (if length rets \<ge> 5 then \<bar>sum_list (last_n 5 rets)\<bar> else 0)
           in case statistics_mean volatilities of
                Inl e \<Rightarrow> Inl e
              | Inr mean_vol \<Rightarrow>
                  (let vol_strength = mean_vol / 0.02;
                       strength = (momentum * 10 + vol_strength) / 2
                   in Inr (max 0 (min 1 strength)))))"

definition signal_map :: "real \<Rightarrow> string \<Rightarrow> string" where
  "signal_map fractal_dim pattern_type =
     (if pattern_type = ''VOLATILE_UPTREND'' then ''BUY''
      else if pattern_type = ''VOLATILE_BREAKOUT'' then
        (if fractal_dim > 1.7 then ''BUY'' else ''NEUTRAL'')
      else if pattern_type = ''SMOOTH_TREND'' then ''HOLD''
      else if pattern_type = ''VOLATILE_DOWNTREND'' then ''SELL''
      else if pattern_type = ''TRENDING_FRACTAL'' then ''HOLD''
      else if pattern_type = ''VOLATILE_RANGE'' then ''NEUTRAL''
      else if pattern_type = ''CHOPPY'' then ''AVOID''
      else ''NEUTRAL'')"

definition generate_prediction_signal :: "string \<Rightarrow> real \<Rightarrow> real \<Rightarrow> string" where
  "generate_prediction_signal pattern_type fractal_dim strength =
     (if strength < 0.3 then ''NEUTRAL''
      else
        (let base_signal = signal_map fractal_dim pattern_type
         in if strength > 0.8 then
              (if base_signal = ''BUY'' then ''STRONG_BUY''
               else if base_signal = ''SELL'' then ''STRONG_SELL''
               else base_signal)
            else if strength < 0.4 then
              (if base_signal \<noteq> ''NEUTRAL'' then ''WEAK_'' @ base_signal else ''NEUTRAL'')
            else base_signal))"

definition calculate_risk_score :: "real list \<Rightarrow> real \<Rightarrow> py_error + real" where
  "calculate_risk_score volatilities fractal_dim =
     (case statistics_mean volatilities of
        Inl e \<Rightarrow> Inl e
      | Inr avg_vol \<Rightarrow>
          (let vol_spike = Max (set volatilities) / max avg_vol 0.001;
               volatility_risk = min 2.0 (avg_vol / 0.03);
               fractal_risk = max 0 ((fractal_dim - 1.5) * 2);
               spike_risk = max 0 ((vol_spike - 2) / 2)
           in Inr (volatility_risk + fractal_risk + spike_risk)))"

subsection \<open>Detection in a window\<close>

definition detect_pattern_in_window ::
  "RealTimeFractalDetector \<Rightarrow> string \<Rightarrow> (int \<times> real \<times> real) list \<Rightarrow> nat
     \<Rightarrow> py_error + FractalPattern option" where
  "detect_pattern_in_window det symbol buffer window_size =
     (if length buffer < window_size then Inr None
      else
        (let timestamps = map fst buffer;
             prices = map (fst \<circ> snd) buffer;
             volatilities = map (snd \<circ> snd) buffer;
             fractal_dim = fast_box_counting prices
         in case classify_pattern det prices volatilities fractal_dim of
              Inl e \<Rightarrow> Inl e
            | Inr pattern_type \<Rightarrow>
                if pattern_type = ''NO_PATTERN'' then Inr None
                else
                  (case calculate_confidence prices fractal_dim volatilities of
                     Inl e \<Rightarrow> Inl e
                   | Inr conf \<Rightarrow>
                       if conf < min_pattern_strength det then Inr None
                       else
                         (case calculate_pattern_strength prices volatilities of
                            Inl e \<Rightarrow> Inl e
                          | Inr strength \<Rightarrow>
                              (case calculate_risk_score volatilities fractal_dim of
                                 Inl e \<Rightarrow> Inl e
                               | Inr risk \<Rightarrow>
                                   (case statistics_mean volatilities of
                                      Inl e \<Rightarrow> Inl e
                                    | Inr vol_avg \<Rightarrow>
                                        Inr (Some
                                          \<lparr>fp_symbol = symbol,
                                           fp_pattern_type = pattern_type,
                                           fp_start_time_us = hd timestamps,
                                           fp_end_time_us = last timestamps,
                                           fp_duration_ms =
                                             (last timestamps - hd timestamps) div 1000,
                                           fp_fractal_dimension = fractal_dim,
                                           fp_confidence = conf,
                                           fp_price_range = (Min (set prices), Max (set prices)),
                                           fp_volatility_avg = vol_avg,
                                           fp_pattern_strength = strength,
                                           fp_prediction_signal =
                                             generate_prediction_signal pattern_type
                                               fractal_dim strength,
                                           fp_risk_score = risk\<rparr>)))))))"

text \<open>\<^verbatim>\<open>add_tick\<close>: the loop over the window sizes. Each buffer takes the tick and is cut
  back to its window size (\<open>push_tick\<close>); a buffer that is full is analysed. An exception
  ends the loop: \<^verbatim>\<open>add_tick\<close> then returns the empty list, with the buffers as they have
  been written.\<close>

definition push_tick ::
  "RealTimeFractalDetector \<Rightarrow> MarketTick \<Rightarrow> nat
     \<Rightarrow> (int \<times> real \<times> real) list \<times> RealTimeFractalDetector" where
  "push_tick det tick window_size =
     (let symbol = tick_symbol tick;
          buffer = price_buffers det symbol window_size
                     @ [(tick_timestamp_us tick, tick_price tick, tick_volatility tick)];
          buffer = drop (length buffer - window_size) buffer
      in (buffer,
          det\<lparr>price_buffers :=
                (price_buffers det)(symbol := (price_buffers det symbol)(window_size := buffer))\<rparr>))"

fun add_tick_loop ::
  "RealTimeFractalDetector \<Rightarrow> MarketTick \<Rightarrow> nat list \<Rightarrow> FractalPattern list
     \<Rightarrow> (py_error + FractalPattern list) \<times> RealTimeFractalDetector" where
  "add_tick_loop det tick [] patterns = (Inr patterns, det)"
| "add_tick_loop det tick (window_size # rest) patterns =
     (case push_tick det tick window_size of
        (buffer, det1) \<Rightarrow>
          if length buffer = window_size then
            (case detect_pattern_in_window det1 (tick_symbol tick) buffer window_size of
               Inl e \<Rightarrow> (Inl e, det1)
             | Inr None \<Rightarrow> add_tick_loop det1 tick rest patterns
             | Inr (Some pattern) \<Rightarrow>
                 add_tick_loop (det1\<lparr>patterns_detected := patterns_detected det1 + 1\<rparr>) tick rest
                   (patterns @ [pattern]))
          else add_tick_loop det1 tick rest patterns)"

definition add_tick ::
  "RealTimeFractalDetector \<Rightarrow> MarketTick \<Rightarrow> FractalPattern list \<times> RealTimeFractalDetector" where
  "add_tick det tick =
     (case add_tick_loop det tick (window_sizes det) [] of
        (Inr patterns, det') \<Rightarrow> (patterns, det')
      | (Inl e, det') \<Rightarrow> ([], det'))"

section \<open>Scenario inputs\<close>

text \<open>Records for the concrete scenarios: an order as \<^verbatim>\<open>_create_order_from_signal\<close> builds
  it (a market order of the engine's client), and a trade execution as
  \<^verbatim>\<open>_execute_order\<close> builds it from an order and a fill price.\<close>

definition market_order :: "string \<Rightarrow> string \<Rightarrow> OrderSide \<Rightarrow> real \<Rightarrow> Order" where
  "market_order oid symbol side quantity =
     \<lparr>order_id = oid, o_symbol = symbol, o_side = side, order_type = MARKET,
      o_quantity = quantity, o_price = None, o_timestamp_us = 0, client_id = ''HFT_ENGINE'',
      execution_status = PENDING, filled_quantity = 0.0, average_fill_price = 0.0,
      o_commission = 0.0, fractal_signal = None, o_risk_score = 0.0\<rparr>"

definition fill :: "string \<Rightarrow> OrderSide \<Rightarrow> real \<Rightarrow> real \<Rightarrow> real \<Rightarrow> TradeExecution" where
  "fill symbol side quantity price commission =
     \<lparr>trade_id = ''T0_O'', t_order_id = ''O'', t_symbol = symbol, t_side = side,
      t_quantity = quantity, t_price = price, t_timestamp_us = 0, execution_latency_us = 0,
      t_commission = commission, fractal_pattern = None\<rparr>"

text \<open>Two trades on two symbols, from a portfolio of 1000: 10 units of AAA bought at 10,
  then 10 units of BBB bought at 5, both without commission.\<close>

definition two_symbols_pm1 :: PortfolioManager where
  "two_symbols_pm1 = fst (update_position (PortfolioManager_init 1000) (fill ''AAA'' BUY 10 10 0))"

definition two_symbols_pm2 :: PortfolioManager where
  "two_symbols_pm2 = fst (update_position two_symbols_pm1 (fill ''BBB'' BUY 10 5 0))"





text \<open>Orders submitted before the worker takes any: three MEDIUM orders A, B, C (priority
  1), and a MEDIUM order A followed by a HIGH order B (priority 0). The clock reads of the
  submissions are 1, 2, 3.\<close>

definition three_medium :: OrderExecutionEngine where
  "three_medium =
     submit_order
       (submit_order
          (submit_order OrderExecutionEngine_init 1 (market_order ''A'' ''EURUSD'' BUY 1000) 1)
          2 (market_order ''B'' ''EURUSD'' BUY 1000) 1)
       3 (market_order ''C'' ''EURUSD'' BUY 1000) 1"

definition medium_then_high :: OrderExecutionEngine where
  "medium_then_high =
     submit_order (submit_order OrderExecutionEngine_init 1 (market_order ''A'' ''EURUSD'' BUY 1000) 1)
       2 (market_order ''B'' ''EURUSD'' BUY 1000) 0"

text \<open>Windows for the detector. The spike window holds 49 ticks at price 100 and a last
  tick at 104, all with volatility 0.01, one millisecond apart; the flat window holds 50
  ticks at price 1 with volatility 0. The spike detector has the one window size 50 and
  has taken the first 49 ticks of the spike window for EURUSD; the spike tick is the
  fiftieth.\<close>

definition spike_prices :: "real list" where
  "spike_prices = replicate 49 100 @ [104]"

definition spike_volatilities :: "real list" where
  "spike_volatilities = replicate 50 0.01"

definition spike_window :: "(int \<times> real \<times> real) list" where
  "spike_window = map (\<lambda>i. (1000 * int i, 100, 0.01)) [0..<49] @ [(49000, 104, 0.01)]"

definition flat_window :: "(int \<times> real \<times> real) list" where
  "flat_window = map (\<lambda>i. (1000 * int i, 1, 0)) [0..<50]"

definition spike_detector :: RealTimeFractalDetector where
  "spike_detector =
     (RealTimeFractalDetector_init (Some [50]))
       \<lparr>price_buffers := (\<lambda>symbol window_size.
          if symbol = ''EURUSD'' \<and> window_size = 50 then butlast spike_window else [])\<rparr>"

definition spike_tick :: MarketTick where
  "spike_tick =
     \<lparr>tick_timestamp_us = 49000, tick_symbol = ''EURUSD'', tick_price = 104, tick_volume = 1,
      tick_bid = 104, tick_ask = 104, tick_spread = 0, tick_volatility = 0.01,
      tick_fractal_dimension = 1.5, tick_sequence_id = 49, tick_exchange = ''SIM''\<rparr>"

section \<open>Properties of the signal processor\<close>



subsection \<open>The confidence and risk gates\<close>



lemma process_thresholds:
  "confidence_threshold (snd (process_fractal_pattern fsp t pd)) = confidence_threshold fsp"
  "risk_threshold (snd (process_fractal_pattern fsp t pd)) = risk_threshold fsp"
  by (auto simp: process_fractal_pattern_def Let_def split: option.splits)


lemma process_missing_key:
  "pd_symbol pd = None \<or> pd_pattern_type pd = None \<or> pd_confidence pd = None
     \<or> pd_risk_score pd = None \<or> pd_prediction_signal pd = None
   \<Longrightarrow> process_fractal_pattern fsp t pd = (None, fsp)"
  by (auto simp: process_fractal_pattern_def split: option.splits)





section \<open>Properties of the portfolio ledger\<close>

subsection \<open>What each stage of an update reads and writes\<close>

lemma mark_positions_map_of:
  "map_of (snd (mark_positions cp ps tot)) k =
     (case map_of ps k of None \<Rightarrow> None
      | Some p \<Rightarrow> Some (case cp k of None \<Rightarrow> p
          | Some price \<Rightarrow> p\<lparr>market_value := p_quantity p * price,
               unrealized_pnl := p_quantity p * price - p_quantity p * average_price p\<rparr>))"
  by (induction ps arbitrary: tot) (auto simp: Let_def split_beta split: option.splits)


lemma track_drawdown_frame:
  "positions (fst (track_drawdown pm v)) = positions pm"
  "current_capital (fst (track_drawdown pm v)) = current_capital pm"
  "total_pnl (fst (track_drawdown pm v)) = total_pnl pm"
  "winning_trades (fst (track_drawdown pm v)) = winning_trades pm"
  "total_trades (fst (track_drawdown pm v)) = total_trades pm"
  by (simp_all add: track_drawdown_def Let_def)

lemma calculate_portfolio_value_frame:
  "current_capital (snd (calculate_portfolio_value pm cp)) = current_capital pm"
  "total_pnl (snd (calculate_portfolio_value pm cp)) = total_pnl pm"
  "winning_trades (snd (calculate_portfolio_value pm cp)) = winning_trades pm"
  "total_trades (snd (calculate_portfolio_value pm cp)) = total_trades pm"
  "peak_portfolio_value (snd (calculate_portfolio_value pm cp)) = peak_portfolio_value pm"
  "max_drawdown (snd (calculate_portfolio_value pm cp)) = max_drawdown pm"
  "positions (snd (calculate_portfolio_value pm cp)) = snd (mark_positions cp (positions pm) (current_capital pm))"
  by (simp_all add: calculate_portfolio_value_def split_beta)


lemma update_position_ledger:
  "current_capital (fst (update_position pm trade)) = current_capital (apply_trade pm trade)"
  "total_pnl (fst (update_position pm trade)) = total_pnl (apply_trade pm trade)"
  "winning_trades (fst (update_position pm trade)) = winning_trades (apply_trade pm trade)"
  "total_trades (fst (update_position pm trade)) = total_trades (apply_trade pm trade)"
  by (simp_all add: update_position_def recomputed_value_def split_beta track_drawdown_frame
        calculate_portfolio_value_frame)

lemma update_position_lookup:
  "map_of (positions (fst (update_position pm trade))) k =
     (case map_of (positions (apply_trade pm trade)) k of None \<Rightarrow> None
      | Some p \<Rightarrow> Some (if k = t_symbol trade
          then p\<lparr>market_value := p_quantity p * t_price trade,
                 unrealized_pnl := p_quantity p * t_price trade - p_quantity p * average_price p\<rparr>
          else p))"
  by (simp add: update_position_def recomputed_value_def split_beta track_drawdown_frame
        calculate_portfolio_value_frame mark_positions_map_of split: option.splits)


subsection \<open>The recomputed portfolio value\<close>

text \<open>
  Claim C1. The portfolio value recomputed at the end of \<^verbatim>\<open>update_position\<close> should be
  cash plus quantity times mark over all held symbols, the other symbols at their last
  known marks. The code passes \<^verbatim>\<open>{symbol: trade.price}\<close> to
  \<^verbatim>\<open>calculate_portfolio_value\<close>, which skips every position that is not a key of that
  dictionary. After 10 AAA bought at 10 and 10 BBB bought at 5 from a capital of 1000, the
  cash is 850, AAA is still held with its stored market value of 100 and BBB is worth 50:
  the update recomputes 900, not 1000, and records a drawdown of one tenth although
  nothing was lost.
\<close>

theorem C1_other_holdings_left_out:
  "fst (recomputed_value two_symbols_pm1 (fill ''BBB'' BUY 10 5 0)) = 900
   \<and> current_capital two_symbols_pm2 = 850
   \<and> map_option market_value (map_of (positions two_symbols_pm2) ''AAA'') = Some 100
   \<and> map_option market_value (map_of (positions two_symbols_pm2) ''BBB'') = Some 50
   \<and> current_capital two_symbols_pm2
       + (\<Sum>(s, pos)\<leftarrow>positions two_symbols_pm2. market_value pos) = 1000
   \<and> max_drawdown two_symbols_pm2 = 0.1"
  by (simp add: two_symbols_pm2_def two_symbols_pm1_def fill_def PortfolioManager_init_def
        update_position_def recomputed_value_def calculate_portfolio_value_def apply_trade_def
        new_position_def track_drawdown_def Let_def)

subsection \<open>Round trip\<close>

text \<open>
  Claim C4. For a symbol with no prior position, a BUY of \<open>q\<close> at \<open>p1\<close> followed by a
  SELL of \<open>q\<close> at \<open>p2\<close>: the BUY changes cash by \<open>-(q p1 + commission)\<close>, the SELL by
  \<open>+(q p2 - commission)\<close>; the realized PnL of the position and the increase of the
  cumulative PnL are \<open>q (p2 - p1)\<close>; the BUY leaves the count of winning trades alone
  and the SELL increments it exactly when \<open>q (p2 - p1)\<close> is positive.
\<close>

theorem C4_round_trip:
  assumes "map_of (positions pm) s = None"
    and "t_symbol buy = s" "t_side buy = BUY" "t_quantity buy = q" "t_price buy = p1"
    and "t_symbol sell = s" "t_side sell = SELL" "t_quantity sell = q" "t_price sell = p2"
  shows "let (pm1, e1) = update_position pm buy; (pm2, e2) = update_position pm1 sell in
     current_capital pm1 = current_capital pm - (q * p1 + t_commission buy) \<and>
     current_capital pm2 = current_capital pm1 + (q * p2 - t_commission sell) \<and>
     map_option realized_pnl (map_of (positions pm2) s) = Some (q * (p2 - p1)) \<and>
     total_pnl pm1 = total_pnl pm \<and>
     total_pnl pm2 = total_pnl pm + q * (p2 - p1) \<and>
     winning_trades pm1 = winning_trades pm \<and>
     winning_trades pm2 = (if q * (p2 - p1) > 0 then winning_trades pm1 + 1 else winning_trades pm1)"
proof -
  define pm1 where "pm1 = fst (update_position pm buy)"
  define pm2 where "pm2 = fst (update_position pm1 sell)"
  have buy_pos: "map_of (positions pm1) s =
      Some ((new_position s (t_timestamp_us buy))\<lparr>average_price := (if q = 0 then 0 else p1),
         p_quantity := q, last_update_us := t_timestamp_us buy, market_value := q * p1,
         unrealized_pnl := q * p1 - q * (if q = 0 then 0 else p1)\<rparr>)"
    using assms unfolding pm1_def
    by (simp add: update_position_lookup apply_trade_def Let_def update_conv' new_position_def)
  have c1: "current_capital pm1 = current_capital pm - (q * p1 + t_commission buy)"
    and t1: "total_pnl pm1 = total_pnl pm" and w1: "winning_trades pm1 = winning_trades pm"
    using assms unfolding pm1_def by (simp_all add: update_position_ledger apply_trade_def Let_def)
  have avg: "(p2 - (if q = 0 then 0 else p1)) * q = q * (p2 - p1)"
    by (simp add: algebra_simps)
  have c2: "current_capital pm2 = current_capital pm1 + (q * p2 - t_commission sell)"
    and t2: "total_pnl pm2 = total_pnl pm + q * (p2 - p1)"
    and w2: "winning_trades pm2 = (if q * (p2 - p1) > 0 then winning_trades pm1 + 1 else winning_trades pm1)"
    using assms buy_pos t1 unfolding pm2_def
    by (auto simp add: update_position_ledger apply_trade_def Let_def mult.commute)
  have r2: "map_option realized_pnl (map_of (positions pm2) s) = Some (q * (p2 - p1))"
    using assms buy_pos unfolding pm2_def
    by (auto simp add: update_position_lookup apply_trade_def Let_def update_conv' new_position_def
          mult.commute)
  show ?thesis
    using c1 c2 t1 t2 w1 w2 r2 by (simp add: split_beta pm1_def pm2_def)
qed

theorem C4_round_trip_witness:
  "let (pm1, e1) = update_position (PortfolioManager_init 1000000) (fill ''EURUSD'' BUY 1000 1.1 0.55);
       (pm2, e2) = update_position pm1 (fill ''EURUSD'' SELL 1000 1.105 0.5525) in
     current_capital pm1 = 998899.45 \<and>
     current_capital pm2 = 1000003.8975 \<and>
     map_option realized_pnl (map_of (positions pm2) ''EURUSD'') = Some 5 \<and>
     total_pnl pm2 = 5 \<and>
     winning_trades pm1 = 0 \<and> winning_trades pm2 = 1"
  using C4_round_trip[of "PortfolioManager_init 1000000" "''EURUSD''"
      "fill ''EURUSD'' BUY 1000 1.1 0.55" 1000 "1.1" "fill ''EURUSD'' SELL 1000 1.105 0.5525" "1.105"]
  by (simp add: split_beta fill_def PortfolioManager_init_def
        update_position_def recomputed_value_def calculate_portfolio_value_def apply_trade_def
        new_position_def track_drawdown_def Let_def)

subsection \<open>Short sales\<close>

text \<open>
  Claim C10, amended. A SELL trade on a symbol with no position is applied by the ledger:
  the position is created with average price 0 and ends with quantity \<open>-q\<close>, cash is
  credited with \<open>q p - commission\<close>, the realized PnL is \<open>p q\<close> and the trade counts as
  winning exactly when \<open>p q > 0\<close>. The risk gate has no check of the held quantity and its
  capital check is for BUY only, but its position-size and total-exposure checks apply to
  a SELL order as to any other: the order is accepted exactly when both pass.
\<close>

theorem C10_short_sale:
  assumes "map_of (positions pm) s = None" "t_symbol sell = s" "t_side sell = SELL"
    "t_quantity sell = q" "t_price sell = p"
  shows "(let (pm', e) = update_position pm sell in
      map_option average_price (map_of (positions pm') s) = Some 0 \<and>
      map_option p_quantity (map_of (positions pm') s) = Some (- q) \<and>
      map_option realized_pnl (map_of (positions pm') s) = Some (p * q) \<and>
      current_capital pm' = current_capital pm + (q * p - t_commission sell) \<and>
      total_pnl pm' = total_pnl pm + p * q \<and>
      winning_trades pm' = (if p * q > 0 then winning_trades pm + 1 else winning_trades pm) \<and>
      total_trades pm' = total_trades pm + 1)
    \<and> (let order = market_order oid s SELL q;
            portfolio_value = max (current_capital pm + (\<Sum>(s, pos)\<leftarrow>positions pm. market_value pos)) 1
        in fst (check_risk_limits pm order P) = True \<longleftrightarrow>
             (q * P / portfolio_value \<le> max_position_size pm
              \<and> ((\<Sum>(s, pos)\<leftarrow>positions pm. \<bar>market_value pos\<bar>) + q * P) / portfolio_value
                    \<le> max_total_exposure pm))"
proof -
  have "map_of (positions (fst (update_position pm sell))) s =
      Some ((new_position s (t_timestamp_us sell))\<lparr>realized_pnl := p * q, p_quantity := - q,
         last_update_us := t_timestamp_us sell, market_value := - q * p,
         unrealized_pnl := - q * p\<rparr>)"
    using assms
    by (simp add: update_position_lookup apply_trade_def Let_def update_conv' new_position_def)
  moreover have "current_capital (fst (update_position pm sell)) = current_capital pm + (q * p - t_commission sell)"
    "total_pnl (fst (update_position pm sell)) = total_pnl pm + p * q"
    "winning_trades (fst (update_position pm sell)) = (if p * q > 0 then winning_trades pm + 1 else winning_trades pm)"
    "total_trades (fst (update_position pm sell)) = total_trades pm + 1"
    using assms by (simp_all add: update_position_ledger apply_trade_def Let_def new_position_def)
  moreover have "fst (check_risk_limits pm (market_order oid s SELL q) P) = True \<longleftrightarrow>
             (q * P / max (current_capital pm + (\<Sum>(s, pos)\<leftarrow>positions pm. market_value pos)) 1 \<le> max_position_size pm
              \<and> ((\<Sum>(s, pos)\<leftarrow>positions pm. \<bar>market_value pos\<bar>) + q * P)
                   / max (current_capital pm + (\<Sum>(s, pos)\<leftarrow>positions pm. market_value pos)) 1
                    \<le> max_total_exposure pm)"
    by (auto simp add: check_risk_limits_def Let_def market_order_def)
  ultimately show ?thesis
    by (simp add: split_beta new_position_def Let_def)
qed

theorem C10_short_sale_witness:
  "(let (pm', e) = update_position (PortfolioManager_init 1000000) (fill ''EURUSD'' SELL 1000 1.1 0.55) in
      map_of (positions pm') ''EURUSD'' =
        Some \<lparr>p_symbol = ''EURUSD'', p_quantity = - 1000, average_price = 0, market_value = - 1100,
              unrealized_pnl = - 1100, realized_pnl = 1100, last_update_us = 0\<rparr> \<and>
      current_capital pm' = 1001099.45 \<and> winning_trades pm' = 1 \<and> e = None)
   \<and> fst (check_risk_limits (PortfolioManager_init 1000000) (market_order ''O1'' ''EURUSD'' SELL 1000) 1.1) = True"
  using C10_short_sale[of "PortfolioManager_init 1000000" "''EURUSD''" "fill ''EURUSD'' SELL 1000 1.1 0.55"
      1000 "1.1" "''O1''" "1.1"]
  by (simp add: split_beta fill_def PortfolioManager_init_def market_order_def
        update_position_def recomputed_value_def calculate_portfolio_value_def apply_trade_def
        new_position_def track_drawdown_def Let_def check_risk_limits_def)

text \<open>As stated, the claim has short sales uncapped by the gate's position checks. A
  short sale of 1,000,000 units at 1.10 against a portfolio of 1,000,000 that holds no
  position is rejected by the position-size check.\<close>

theorem C10_short_sale_capped_counterexample:
  "map_of (positions (PortfolioManager_init 1000000)) ''EURUSD'' = None
   \<and> check_risk_limits (PortfolioManager_init 1000000) (market_order ''O1'' ''EURUSD'' SELL 1000000) 1.10
       = (False, Position_size_exceeds_limit 1.10 0.05)"
  by (simp add: check_risk_limits_def PortfolioManager_init_def market_order_def Let_def)

subsection \<open>Peak and drawdown\<close>
















section \<open>Properties of the risk gate\<close>

text \<open>
  Claim C5. With the limits of \<^verbatim>\<open>__init__\<close> (0.05 and 0.80), order value
  \<open>quantity \<cdot> P\<close> and portfolio value cash plus the stored market values, floored at 1,
  \<^verbatim>\<open>check_risk_limits\<close> rejects an order exactly when the order value is more than 0.05
  of the portfolio value, or the absolute market values plus the order value are more
  than 0.80 of it, or the order is a BUY of more than 0.95 of the cash. With cash
  1,000,000 and no positions, a BUY of 1,000,000 units at 1.10 is rejected with the
  position-size message.
\<close>

theorem C5_risk_gate:
  assumes "max_position_size pm = 0.05" "max_total_exposure pm = 0.80"
  shows "(let order_value = o_quantity order * P;
              portfolio_value = max (current_capital pm + (\<Sum>(s, pos)\<leftarrow>positions pm. market_value pos)) 1
          in fst (check_risk_limits pm order P) = False \<longleftrightarrow>
               (order_value / portfolio_value > 0.05
                \<or> ((\<Sum>(s, pos)\<leftarrow>positions pm. \<bar>market_value pos\<bar>) + order_value) / portfolio_value > 0.80
                \<or> (o_side order = BUY \<and> order_value > 0.95 * current_capital pm)))
       \<and> check_risk_limits (PortfolioManager_init 1000000) (market_order oid symbol BUY 1000000) 1.10
           = (False, Position_size_exceeds_limit 1.10 0.05)"
proof -
  have gate: "fst (check_risk_limits pm order P) = False \<longleftrightarrow>
      (o_quantity order * P / max (current_capital pm + (\<Sum>(s, pos)\<leftarrow>positions pm. market_value pos)) 1
          > max_position_size pm
       \<or> ((\<Sum>(s, pos)\<leftarrow>positions pm. \<bar>market_value pos\<bar>) + o_quantity order * P)
            / max (current_capital pm + (\<Sum>(s, pos)\<leftarrow>positions pm. market_value pos)) 1
          > max_total_exposure pm
       \<or> (o_side order = BUY \<and> o_quantity order * P > 0.95 * current_capital pm))"
    by (auto simp add: check_risk_limits_def Let_def mult.commute)
  have scenario: "check_risk_limits (PortfolioManager_init 1000000) (market_order oid symbol BUY 1000000) 1.10
           = (False, Position_size_exceeds_limit 1.10 0.05)"
    by (simp add: check_risk_limits_def Let_def PortfolioManager_init_def market_order_def)
  show ?thesis
    unfolding Let_def gate assms using scenario by simp
qed

theorem C5_risk_gate_witness:
  "fst (check_risk_limits (PortfolioManager_init 1000000) (market_order ''O1'' ''EURUSD'' BUY 1000000) 1.10) = False
   \<and> fst (check_risk_limits (PortfolioManager_init 1000000) (market_order ''O2'' ''EURUSD'' BUY 1000) 1.10) = True
   \<and> fst (check_risk_limits (PortfolioManager_init 1000) (market_order ''O3'' ''EURUSD'' BUY 1000) 1.10) = False"
  using C5_risk_gate[of "PortfolioManager_init 1000000" "market_order ''O1'' ''EURUSD'' BUY 1000000" "1.10"]
        C5_risk_gate[of "PortfolioManager_init 1000000" "market_order ''O2'' ''EURUSD'' BUY 1000" "1.10"]
        C5_risk_gate[of "PortfolioManager_init 1000" "market_order ''O3'' ''EURUSD'' BUY 1000" "1.10"]
  by (simp add: PortfolioManager_init_def market_order_def Let_def)

section \<open>Properties of the execution queue\<close>

text \<open>
  Claim C7. Equal-priority orders should leave the queue in arrival order. The queue's
  entries are \<^verbatim>\<open>(priority, order)\<close> with no arrival counter, so a tie of priorities is
  decided by comparing the orders, which raises. With three MEDIUM orders A, B, C
  submitted before any is taken: the puts of B and C raise (caught by \<^verbatim>\<open>submit_order\<close>,
  two execution errors) and leave the entries appended; the first \<^verbatim>\<open>get\<close> raises inside
  the sift and drops A, the entry it had taken from the root; B and C follow. A, the first
  arrival, is never handed to the executor. A HIGH order submitted after a MEDIUM one
  does leave first.
\<close>

theorem C7_equal_priority_orders:
  "map (\<lambda>(p, ord). (p, order_id ord)) (execution_queue three_medium)
     = [(1, ''A''), (1, ''B''), (1, ''C'')]
   \<and> EXECUTION_ERRORS three_medium = 2
   \<and> map (map_option order_id) (fst (dequeue_all 3 three_medium)) = [None, Some ''B'', Some ''C'']
   \<and> EXECUTION_ERRORS (snd (dequeue_all 3 three_medium)) = 3
   \<and> execution_queue (snd (dequeue_all 3 three_medium)) = []
   \<and> map (map_option order_id) (fst (dequeue_all 2 medium_then_high)) = [Some ''B'', Some ''A'']"
  by (simp add: three_medium_def medium_then_high_def submit_order_def OrderExecutionEngine_init_def
        market_order_def heappush_def siftdown.simps entry_lt_def Let_def numeral_3_eq_3
        numeral_2_eq_2 process_execution_queue_step_def heappop_def siftup_def siftup_loop.simps)

section \<open>Properties of the fractal detector\<close>

subsection \<open>The box-counting dimension\<close>

lemma clamped_slope_range: "1 \<le> clamped_slope xs ys \<and> clamped_slope xs ys \<le> 2"
  by (simp add: clamped_slope_def Let_def)

lemma clamped_slope_degenerate:
  "length xs < 2 \<or> \<bar>regression_denom xs\<bar> < 1 / 10 ^ 10 \<Longrightarrow> clamped_slope xs ys = 1"
  by (auto simp add: clamped_slope_def Let_def)

lemma clamped_slope_low:
  assumes "length xs \<ge> 2" "0 < regression_denom xs"
    and "real (length xs) * sum_list (map (\<lambda>(x, y). x * y) (zip xs ys)) - sum_list xs * sum_list ys
           \<le> regression_denom xs"
  shows "clamped_slope xs ys = 1"
proof -
  have "(real (length xs) * sum_list (map (\<lambda>(x, y). x * y) (zip xs ys)) - sum_list xs * sum_list ys)
          / regression_denom xs \<le> 1"
    using assms(2,3) by (simp add: divide_le_eq)
  then have "max 1 (min 2 ((real (length xs) * sum_list (map (\<lambda>(x, y). x * y) (zip xs ys))
                              - sum_list xs * sum_list ys) / regression_denom xs)) = 1"
    by simp
  then show ?thesis using assms(1)
    unfolding clamped_slope_def Let_def by simp
qed

text \<open>
  Claim C2. For every list of prices, \<^verbatim>\<open>_fast_box_counting\<close> returns a value between 1
  and 2, and it returns exactly 1 when the list has fewer than 10 elements, or its
  maximum equals its minimum, or fewer than two box sizes are usable (\<^verbatim>\<open>log_sizes\<close> has
  fewer than two entries), or the fit is near-singular (the denominator of the slope is
  below one part in ten thousand million in absolute value).
\<close>

theorem C2_box_counting_range:
  "1 \<le> fast_box_counting P \<and> fast_box_counting P \<le> 2
   \<and> (length P < 10 \<or> Max (set P) - Min (set P) = 0
        \<or> length (fst (box_counts P)) < 2
        \<or> \<bar>regression_denom (fst (box_counts P))\<bar> < 1 / 10 ^ 10
       \<longrightarrow> fast_box_counting P = 1)"
proof -
  have range: "1 \<le> fast_box_counting P \<and> fast_box_counting P \<le> 2"
    using clamped_slope_range by (simp add: fast_box_counting_def split_beta)
  have one: "fast_box_counting P = 1"
    if "length P < 10 \<or> Max (set P) - Min (set P) = 0
        \<or> length (fst (box_counts P)) < 2
        \<or> \<bar>regression_denom (fst (box_counts P))\<bar> < 1 / 10 ^ 10"
    using that clamped_slope_degenerate[of "fst (box_counts P)" "snd (box_counts P)"]
    by (auto simp add: fast_box_counting_def split_beta)
  show ?thesis using range one by blast
qed

text \<open>The dimension of the spike window, through the whole regression: the box counts
  are 49, 25, 13 and 7 for the sizes 1, 2, 4 and 8, and the slope of their logarithms is
  below 1, so the clamp returns 1.\<close>

lemma boxes_flat_prefix:
  assumes "0 < m" "0 < s"
  shows "boxes s (replicate m 0 @ [x]) = (\<lambda>k. (k, 0)) ` {0..(m - 1) div s}"
proof -
  have "boxes s (replicate m 0 @ [x]) = (\<lambda>i. (i div s, 0)) ` {0..<m}"
    by (simp add: boxes_def py_int_def enumerate_replicate_eq comp_def)
  also have "\<dots> = (\<lambda>k. (k, 0)) ` {0..(m - 1) div s}"
  proof (intro set_eqI iffI)
    fix b assume "b \<in> (\<lambda>i. (i div s, 0::int)) ` {0..<m}"
    then obtain i where i: "i < m" "b = (i div s, 0)" by auto
    then have "i div s \<le> (m - 1) div s" by (intro div_le_mono) simp
    then show "b \<in> (\<lambda>k. (k, 0)) ` {0..(m - 1) div s}" using i by auto
  next
    fix b assume "b \<in> (\<lambda>k. (k, 0::int)) ` {0..(m - 1) div s}"
    then obtain k where k: "k \<le> (m - 1) div s" "b = (k, 0)" by auto
    from k(1) have "k * s \<le> (m - 1) div s * s" by (rule mult_le_mono1)
    also have "\<dots> \<le> m - 1" by simp
    finally have "k * s \<le> m - 1" .
    then have "k * s < m" using assms by simp
    moreover have "(k * s) div s = k" using assms by simp
    ultimately show "b \<in> (\<lambda>i. (i div s, 0)) ` {0..<m}" using k
      by (auto simp: image_iff intro!: bexI[of _ "k * s"])
  qed
  finally show ?thesis .
qed

lemma card_boxes_flat_prefix:
  assumes "0 < m" "0 < s"
  shows "card (boxes s (replicate m 0 @ [x])) = (m - 1) div s + 1"
proof -
  have "inj_on (\<lambda>k::nat. (k, 0::int)) {0..(m - 1) div s}" by (simp add: inj_on_def)
  then show ?thesis by (simp add: boxes_flat_prefix[OF assms] card_image)
qed

lemma ln_halves:
  "ln (1 / 2 :: real) = - ln 2" "ln (1 / 4 :: real) = - 2 * ln 2" "ln (1 / 8 :: real) = - 3 * ln 2"
proof -
  have "ln (4 :: real) = ln (2 ^ 2)" "ln (8 :: real) = ln (2 ^ 3)" by simp_all
  then have "ln (4 :: real) = 2 * ln 2" "ln (8 :: real) = 3 * ln 2"
    by (simp_all only: ln_realpow)
  then show "ln (1 / 2 :: real) = - ln 2" "ln (1 / 4 :: real) = - 2 * ln 2"
      "ln (1 / 8 :: real) = - 3 * ln 2"
    by (simp_all add: ln_div)
qed

lemma spike_box_counts:
  "box_counts spike_prices =
     ([0, ln (1 / 2), ln (1 / 4), ln (1 / 8)], [ln 49, ln 25, ln 13, ln 7])"
proof -
  have mm: "Min (set spike_prices) = 100" "Max (set spike_prices) = 104"
    by (simp_all add: spike_prices_def)
  have norm: "map (\<lambda>p. (p - 100) / (104 - 100)) spike_prices = replicate 49 0 @ [1]"
    by (simp add: spike_prices_def)
  have card: "card (boxes s (replicate 49 0 @ [1])) = 48 div s + 1" if "0 < s" for s
    using card_boxes_flat_prefix[of 49 s 1] that by simp
  show ?thesis
    unfolding box_counts_def Let_def mm norm
    by (simp add: spike_prices_def card)
qed

lemma spike_fractal_dimension: "fast_box_counting spike_prices = 1"
proof -
  define L where "L = ln (2 :: real)"
  have L: "0 < L" by (simp add: L_def)
  have a: "ln (49 :: real) - ln 7 \<le> 3 * L"
  proof -
    have "ln (49 / 7 :: real) = ln 49 - ln 7" by (rule ln_divide_pos) simp_all
    then have "ln (49 :: real) - ln 7 = ln (49 / 7)" by simp
    also have "\<dots> \<le> ln (2 ^ 3)" by (subst ln_le_cancel_iff) simp_all
    also have "\<dots> = 3 * L" unfolding L_def by (simp only: ln_realpow of_nat_numeral)
    finally show ?thesis .
  qed
  have b: "ln (25 :: real) - ln 13 \<le> L"
  proof -
    have "ln (25 / 13 :: real) = ln 25 - ln 13" by (rule ln_divide_pos) simp_all
    then have "ln (25 :: real) - ln 13 = ln (25 / 13)" by simp
    also have "\<dots> \<le> ln 2" by (subst ln_le_cancel_iff) simp_all
    finally show ?thesis by (simp add: L_def)
  qed
  let ?xs = "[0, ln (1 / 2), ln (1 / 4), ln (1 / 8 :: real)]"
  let ?ys = "[ln 49, ln 25, ln 13, ln (7 :: real)]"
  have den: "regression_denom ?xs = 20 * (L * L)"
    by (simp add: regression_denom_def ln_halves L_def algebra_simps)
  have num: "real (length ?xs) * sum_list (map (\<lambda>(x, y). x * y) (zip ?xs ?ys))
               - sum_list ?xs * sum_list ?ys
             = L * (6 * (ln 49 - ln 7) + 2 * (ln 25 - ln 13))"
    by (simp add: ln_halves L_def algebra_simps)
  have "6 * (ln 49 - ln 7) + 2 * (ln 25 - ln 13) \<le> 20 * L"
    using a b by simp
  then have "L * (6 * (ln 49 - ln 7) + 2 * (ln 25 - ln 13)) \<le> L * (20 * L)"
    using L by (intro mult_left_mono) simp_all
  then have ineq: "L * (6 * (ln 49 - ln 7) + 2 * (ln 25 - ln 13)) \<le> 20 * (L * L)"
    by (simp only: mult.left_commute)
  have c1: "2 \<le> length ?xs" by simp
  have c2: "0 < regression_denom ?xs" unfolding den using L by simp
  have c3: "real (length ?xs) * sum_list (map (\<lambda>(x, y). x * y) (zip ?xs ?ys))
               - sum_list ?xs * sum_list ?ys \<le> regression_denom ?xs"
    unfolding num den by (rule ineq)
  have "clamped_slope ?xs ?ys = 1"
    by (rule clamped_slope_low[OF c1 c2 c3])
  then show ?thesis
    by (simp add: fast_box_counting_def spike_box_counts)
qed

theorem C2_box_counting_range_witness:
  "fast_box_counting [] = 1
   \<and> fast_box_counting (replicate 50 1.1) = 1
   \<and> 1 \<le> fast_box_counting spike_prices \<and> fast_box_counting spike_prices \<le> 2"
  using C2_box_counting_range[of "[]"] C2_box_counting_range[of "replicate 50 1.1"]
    C2_box_counting_range[of spike_prices]
  by simp

subsection \<open>The confidence gate of the detector\<close>

lemma detect_Some:
  assumes "detect_pattern_in_window det symbol buffer window_size = Inr (Some p)"
  shows "calculate_confidence (map (fst \<circ> snd) buffer)
           (fast_box_counting (map (fst \<circ> snd) buffer)) (map (snd \<circ> snd) buffer)
         = Inr (fp_confidence p)"
    and "min_pattern_strength det \<le> fp_confidence p"
  using assms
  by (auto simp add: detect_pattern_in_window_def Let_def split: if_splits sum.splits)

lemma detect_emits:
  assumes "window_size \<le> length buffer"
    and "classify_pattern det (map (fst \<circ> snd) buffer) (map (snd \<circ> snd) buffer)
           (fast_box_counting (map (fst \<circ> snd) buffer)) = Inr pattern_type"
    and "calculate_confidence (map (fst \<circ> snd) buffer)
           (fast_box_counting (map (fst \<circ> snd) buffer)) (map (snd \<circ> snd) buffer) = Inr c"
    and "calculate_pattern_strength (map (fst \<circ> snd) buffer) (map (snd \<circ> snd) buffer) = Inr st"
    and "min_pattern_strength det \<le> c"
  shows "map_option fp_confidence
           (case detect_pattern_in_window det symbol buffer window_size of
              Inl e \<Rightarrow> None | Inr r \<Rightarrow> r) = Some c"
proof -
  have np: "pattern_type \<noteq> ''NO_PATTERN''"
    using assms(2) by (auto simp add: classify_pattern_def Let_def split: sum.splits if_splits)
  obtain avg where avg: "statistics_mean (map (snd \<circ> snd) buffer) = Inr avg"
    using assms(4) by (auto simp add: calculate_pattern_strength_def Let_def split: sum.splits)
  then obtain r where r: "calculate_risk_score (map (snd \<circ> snd) buffer)
           (fast_box_counting (map (fst \<circ> snd) buffer)) = Inr r"
    by (simp add: calculate_risk_score_def Let_def)
  show ?thesis
    using assms np avg r by (simp add: detect_pattern_in_window_def Let_def)
qed

lemma push_tick_threshold:
  "min_pattern_strength (snd (push_tick det tick window_size)) = min_pattern_strength det"
  by (simp add: push_tick_def Let_def)

lemma add_tick_loop_confidence:
  assumes "add_tick_loop det tick sizes patterns = (Inr ps, det')"
    and "\<forall>p \<in> set patterns. min_pattern_strength det \<le> fp_confidence p"
  shows "\<forall>p \<in> set ps. min_pattern_strength det \<le> fp_confidence p"
  using assms
proof (induction sizes arbitrary: det patterns)
  case Nil
  then show ?case by simp
next
  case (Cons window_size rest)
  obtain buffer det1 where push: "push_tick det tick window_size = (buffer, det1)"
    by (cases "push_tick det tick window_size")
  then have thr: "min_pattern_strength det1 = min_pattern_strength det"
    using push_tick_threshold[of det tick window_size] by simp
  show ?case
  proof (cases "length buffer = window_size")
    case False
    then have "add_tick_loop det1 tick rest patterns = (Inr ps, det')"
      using Cons.prems(1) push by simp
    then show ?thesis using Cons.IH[of det1 patterns] Cons.prems(2) thr by simp
  next
    case True
    show ?thesis
    proof (cases "detect_pattern_in_window det1 (tick_symbol tick) buffer window_size")
      case (Inl e)
      then show ?thesis using Cons.prems(1) push True by simp
    next
      case (Inr r)
      show ?thesis
      proof (cases r)
        case None
        then have "add_tick_loop det1 tick rest patterns = (Inr ps, det')"
          using Cons.prems(1) push True Inr by simp
        then show ?thesis using Cons.IH[of det1 patterns] Cons.prems(2) thr by simp
      next
        case (Some pattern)
        let ?det2 = "det1\<lparr>patterns_detected := patterns_detected det1 + 1\<rparr>"
        have "min_pattern_strength det1 \<le> fp_confidence pattern"
          using detect_Some(2) Inr Some by blast
        moreover have "add_tick_loop ?det2 tick rest (patterns @ [pattern]) = (Inr ps, det')"
          using Cons.prems(1) push True Inr Some by simp
        ultimately show ?thesis
          using Cons.IH[of ?det2 "patterns @ [pattern]"] Cons.prems(2) thr by simp
      qed
    qed
  qed
qed

lemma add_tick_confidence:
  "\<forall>p \<in> set (fst (add_tick det tick)). min_pattern_strength det \<le> fp_confidence p"
proof (cases "add_tick_loop det tick (window_sizes det) []")
  case (Pair r det')
  show ?thesis
  proof (cases r)
    case (Inl e)
    then show ?thesis using Pair by (simp add: add_tick_def)
  next
    case (Inr ps)
    then show ?thesis
      using add_tick_loop_confidence[of det tick "window_sizes det" "[]" ps det'] Pair
      by (simp add: add_tick_def)
  qed
qed

text \<open>
  Claim C9. The detector's \<^verbatim>\<open>min_pattern_strength\<close> is 0.6. A pattern that
  \<^verbatim>\<open>_detect_pattern_in_window\<close> returns carries the computed confidence, and that is at
  least \<^verbatim>\<open>min_pattern_strength\<close>: a window whose computed confidence is below 0.6 yields
  no pattern. A full window whose computed confidence is at least 0.6 (and whose scores
  raise no exception) does yield its pattern, also when the confidence is below the
  signal processor's 0.7. Every pattern that \<^verbatim>\<open>add_tick\<close> puts out has a confidence of at
  least \<^verbatim>\<open>min_pattern_strength\<close>.
\<close>

theorem C9_detector_confidence_gate:
  "min_pattern_strength (RealTimeFractalDetector_init sizes) = 0.6
   \<and> (detect_pattern_in_window det symbol buffer window_size = Inr (Some p)
        \<longrightarrow> calculate_confidence (map (fst \<circ> snd) buffer)
              (fast_box_counting (map (fst \<circ> snd) buffer)) (map (snd \<circ> snd) buffer)
            = Inr (fp_confidence p)
          \<and> min_pattern_strength det \<le> fp_confidence p)
   \<and> (window_size \<le> length buffer
        \<and> classify_pattern det (map (fst \<circ> snd) buffer) (map (snd \<circ> snd) buffer)
              (fast_box_counting (map (fst \<circ> snd) buffer)) = Inr pattern_type
        \<and> calculate_confidence (map (fst \<circ> snd) buffer)
              (fast_box_counting (map (fst \<circ> snd) buffer)) (map (snd \<circ> snd) buffer) = Inr c
        \<and> calculate_pattern_strength (map (fst \<circ> snd) buffer) (map (snd \<circ> snd) buffer) = Inr st
        \<and> min_pattern_strength det \<le> c
        \<longrightarrow> map_option fp_confidence
              (case detect_pattern_in_window det symbol buffer window_size of
                 Inl e \<Rightarrow> None | Inr r \<Rightarrow> r) = Some c)
   \<and> (\<forall>q \<in> set (fst (add_tick det tick)). min_pattern_strength det \<le> fp_confidence q)"
  using detect_Some[of det symbol buffer window_size p]
    detect_emits[of window_size buffer det pattern_type c st symbol]
    add_tick_confidence[of det tick]
  by (simp add: RealTimeFractalDetector_init_def)

text \<open>The two sides of the gate on concrete windows. The flat window has a computed
  confidence of 0.4 and yields nothing. The spike window has a computed confidence of
  1334/2085, between 0.6 and 0.7, and its pattern is returned, by
  \<^verbatim>\<open>_detect_pattern_in_window\<close> and by \<^verbatim>\<open>add_tick\<close>.\<close>

lemma spike_window_columns:
  "map (fst \<circ> snd) spike_window = spike_prices"
  "map (snd \<circ> snd) spike_window = spike_volatilities"
  "hd (map fst spike_window) = 0"
  "last (map fst spike_window) = 49000"
  "length spike_window = 50"
proof -
  have "replicate 50 (0.01 :: real) = replicate (49 + 1) 0.01" by simp
  also have "\<dots> = replicate 49 0.01 @ [0.01]" by (simp only: replicate_add) simp
  finally show "map (snd \<circ> snd) spike_window = spike_volatilities"
    by (simp add: spike_window_def spike_volatilities_def comp_def map_replicate_const)
  show "map (fst \<circ> snd) spike_window = spike_prices"
    by (simp add: spike_window_def spike_prices_def comp_def map_replicate_const)
  have "[0..<49] = 0 # [1..<49]" by (simp add: upt_conv_Cons)
  then show "hd (map fst spike_window) = 0" by (simp add: spike_window_def)
  show "last (map fst spike_window) = 49000" by (simp add: spike_window_def)
  show "length spike_window = 50" by (simp add: spike_window_def)
qed

lemma simple_returns_flat_prefix:
  "c \<noteq> 0 \<Longrightarrow> simple_returns (replicate (Suc m) c @ [d]) = Inr (replicate m 0 @ [(d - c) / c])"
  by (induction m) simp_all

lemma spike_returns: "simple_returns spike_prices = Inr (replicate 48 0 @ [0.04])"
  using simple_returns_flat_prefix[of 100 48 104] by (simp add: spike_prices_def)

lemma spike_detect:
  assumes "min_pattern_strength det = 0.6"
  shows "detect_pattern_in_window det ''EURUSD'' spike_window 50 =
     Inr (Some \<lparr>fp_symbol = ''EURUSD'', fp_pattern_type = ''SMOOTH_TREND'',
                fp_start_time_us = 0, fp_end_time_us = 49000, fp_duration_ms = 49,
                fp_fractal_dimension = 1, fp_confidence = 1334 / 2085,
                fp_price_range = (100, 104), fp_volatility_avg = 0.01,
                fp_pattern_strength = 0.45, fp_prediction_signal = ''HOLD'',
                fp_risk_score = 1 / 3\<rparr>)"
proof -
  have vols: "statistics_mean spike_volatilities = Inr 0.01"
    "statistics_stdev spike_volatilities = Inr 0" "Max (set spike_volatilities) = 0.01"
    by (simp_all add: spike_volatilities_def statistics_mean_def statistics_stdev_def
          sum_list_replicate Let_def)
  have cls: "classify_pattern det spike_prices spike_volatilities 1 = Inr ''SMOOTH_TREND''" for det
    by (simp add: classify_pattern_def vols spike_returns last_n_def Let_def sum_list_replicate)
  have mm: "Min (set spike_prices) = 100" "Max (set spike_prices) = 104"
    "sum_list spike_prices = 5004" "length spike_prices = 50" "spike_prices \<noteq> []"
    by (simp_all add: spike_prices_def sum_list_replicate)
  have conf: "calculate_confidence spike_prices 1 spike_volatilities = Inr (1334 / 2085)"
    by (simp add: calculate_confidence_def mm vols Let_def)
  have str: "calculate_pattern_strength spike_prices spike_volatilities = Inr 0.45"
    by (simp add: calculate_pattern_strength_def spike_returns last_n_def vols
          sum_list_replicate Let_def)
  have risk: "calculate_risk_score spike_volatilities 1 = Inr (1 / 3)"
    by (simp add: calculate_risk_score_def vols Let_def)
  have pred: "generate_prediction_signal ''SMOOTH_TREND'' 1 0.45 = ''HOLD''"
    by (simp add: generate_prediction_signal_def signal_map_def Let_def)
  show ?thesis
    unfolding detect_pattern_in_window_def Let_def spike_window_columns spike_fractal_dimension
      cls conf str risk vols mm assms
    using pred by simp
qed

lemma simple_returns_flat:
  "c \<noteq> 0 \<Longrightarrow> simple_returns (replicate (Suc m) c) = Inr (replicate m 0)"
  by (induction m) simp_all

lemma flat_window_columns:
  "map (fst \<circ> snd) flat_window = replicate 50 1"
  "map (snd \<circ> snd) flat_window = replicate 50 0"
  "length flat_window = 50"
  by (simp_all add: flat_window_def comp_def map_replicate_const)

lemma flat_confidence:
  "calculate_confidence (replicate 50 1) (fast_box_counting (replicate 50 1)) (replicate 50 0) = Inr 0.4"
  by (simp add: calculate_confidence_def fast_box_counting_def statistics_stdev_def
        statistics_mean_def sum_list_replicate Let_def)

lemma flat_detect:
  assumes "min_pattern_strength det = 0.6"
  shows "detect_pattern_in_window det ''EURUSD'' flat_window 50 = Inr None"
proof -
  have "simple_returns (replicate 50 (1 :: real)) = Inr (replicate 49 0)"
    using simple_returns_flat[of 1 49] by simp
  then have cls: "classify_pattern det (replicate 50 1) (replicate 50 0)
      (fast_box_counting (replicate 50 1)) = Inr ''SIDEWAYS''"
    by (simp add: classify_pattern_def statistics_mean_def fast_box_counting_def last_n_def
          sum_list_replicate Let_def)
  show ?thesis
    unfolding detect_pattern_in_window_def Let_def flat_window_columns cls flat_confidence
    using assms by simp
qed

lemma spike_add_tick:
  "map fp_confidence (fst (add_tick spike_detector spike_tick)) = [1334 / 2085]"
proof -
  have thr: "min_pattern_strength det = 0.6"
    if "det = snd (push_tick spike_detector spike_tick 50)" for det
    using that by (simp add: push_tick_threshold spike_detector_def RealTimeFractalDetector_init_def)
  have buf: "fst (push_tick spike_detector spike_tick 50) = spike_window"
    by (simp add: push_tick_def spike_detector_def spike_tick_def spike_window_def Let_def)
  have sym: "tick_symbol spike_tick = ''EURUSD''" by (simp add: spike_tick_def)
  have ws: "window_sizes spike_detector = [50]"
    by (simp add: spike_detector_def RealTimeFractalDetector_init_def)
  show ?thesis
    using spike_detect[OF thr[OF refl]] buf spike_window_columns(5)
    by (simp add: add_tick_def ws split_beta sym)
qed

theorem C9_detector_confidence_gate_witness:
  "detect_pattern_in_window (RealTimeFractalDetector_init None) ''EURUSD'' flat_window 50 = Inr None
   \<and> calculate_confidence (map (fst \<circ> snd) flat_window)
        (fast_box_counting (map (fst \<circ> snd) flat_window)) (map (snd \<circ> snd) flat_window) = Inr 0.4
   \<and> map_option fp_confidence
        (case detect_pattern_in_window (RealTimeFractalDetector_init None) ''EURUSD'' spike_window 50 of
           Inl e \<Rightarrow> None | Inr r \<Rightarrow> r) = Some (1334 / 2085)
   \<and> calculate_confidence (map (fst \<circ> snd) spike_window)
        (fast_box_counting (map (fst \<circ> snd) spike_window)) (map (snd \<circ> snd) spike_window)
       = Inr (1334 / 2085)
   \<and> min_pattern_strength (RealTimeFractalDetector_init None) \<le> 1334 / 2085
   \<and> (1334 / 2085 :: real) < 0.7
   \<and> map fp_confidence (fst (add_tick spike_detector spike_tick)) = [1334 / 2085]"
proof -
  let ?det = "RealTimeFractalDetector_init None"
  let ?p = "\<lparr>fp_symbol = ''EURUSD'', fp_pattern_type = ''SMOOTH_TREND'',
                fp_start_time_us = 0, fp_end_time_us = 49000, fp_duration_ms = 49,
                fp_fractal_dimension = 1, fp_confidence = 1334 / 2085,
                fp_price_range = (100, 104), fp_volatility_avg = 0.01,
                fp_pattern_strength = 0.45, fp_prediction_signal = ''HOLD'',
                fp_risk_score = 1 / 3\<rparr>"
  note gate = C9_detector_confidence_gate[of None ?det "''EURUSD''" spike_window 50 ?p]
  have thr: "min_pattern_strength ?det = 0.6"
    using gate by simp
  have emitted: "detect_pattern_in_window ?det ''EURUSD'' spike_window 50 = Inr (Some ?p)"
    by (rule spike_detect[OF thr])
  have computed: "calculate_confidence (map (fst \<circ> snd) spike_window)
        (fast_box_counting (map (fst \<circ> snd) spike_window)) (map (snd \<circ> snd) spike_window)
       = Inr (1334 / 2085) \<and> min_pattern_strength ?det \<le> 1334 / 2085"
    using gate emitted by simp
  show ?thesis
    using flat_detect[OF thr] emitted computed spike_add_tick flat_confidence
    by (simp add: flat_window_columns)
qed

end
